theory Spec2Isabelle
  imports Main "HOL-Library.Word"
begin

section \<open>Go values held by a custom field\<close>

text \<open>
  The repository is a Go client for the Trello API. The part with logic of its own is
  \<^verbatim>\<open>custom-fields.go\<close>: the guard of \<^verbatim>\<open>SetCustomFieldByItem\<close> and the codec
  \<^verbatim>\<open>CustomFieldValue.MarshalJSON\<close> / \<^verbatim>\<open>UnmarshalJSON\<close>. The codec calls the Go
  standard library (\<^verbatim>\<open>strconv\<close>, \<^verbatim>\<open>fmt\<close>, \<^verbatim>\<open>time\<close>, \<^verbatim>\<open>encoding/json\<close>); those
  routines are modelled below as far as the codec uses them, for a 64-bit platform
  (\<^verbatim>\<open>int\<close> is 64 bits wide).
\<close>

subsection \<open>Errors\<close>

datatype num_err = ErrSyntax | ErrRange

datatype error =
    Errorf string                    \<comment> \<open>\<^verbatim>\<open>fmt.Errorf\<close> / \<^verbatim>\<open>errors.Errorf\<close>, with the message\<close>
  | NumError string string num_err   \<comment> \<open>\<^verbatim>\<open>strconv.NumError{Func, Num, Err}\<close>\<close>
  | ParseError string                \<comment> \<open>\<^verbatim>\<open>time.ParseError\<close> for the given input\<close>
  | SyntaxError                      \<comment> \<open>\<^verbatim>\<open>json.SyntaxError\<close>: the bytes are no JSON document\<close>
  | UnmarshalTypeError string        \<comment> \<open>\<^verbatim>\<open>json.UnmarshalTypeError{Value}\<close>\<close>
  | ValuerError string               \<comment> \<open>whatever a \<^verbatim>\<open>driver.Valuer\<close> returned\<close>

subsection \<open>Decimal digits\<close>

definition isDigit :: "char \<Rightarrow> bool" where
  "isDigit c = ((48::nat) \<le> of_char c \<and> of_char c \<le> (57::nat))"

definition digit_val :: "char \<Rightarrow> nat" where
  "digit_val c = of_char c - 48"

definition digit_chr :: "nat \<Rightarrow> char" where
  "digit_chr n = char_of (48 + n)"

function utoa :: "nat \<Rightarrow> string" where
  "utoa n = (if n < 10 then [digit_chr n] else utoa (n div 10) @ [digit_chr (n mod 10)])"
  by pat_completeness auto
termination
  by (relation "measure id") auto

declare utoa.simps [simp del]

text \<open>\<^verbatim>\<open>fmt.Sprintf("%d", v)\<close> for a 64-bit signed integer.\<close>

definition Sprintf_d :: "64 word \<Rightarrow> string" where
  "Sprintf_d w = (if sint w < 0 then CHR ''-'' # utoa (nat (- sint w)) else utoa (nat (sint w)))"

subsection \<open>\<^verbatim>\<open>strconv.ParseUint\<close>, \<^verbatim>\<open>ParseInt\<close> and \<^verbatim>\<open>Atoi\<close> in base 10\<close>

definition maxUint64 :: nat where
  "maxUint64 = 2 ^ 64 - 1"

text \<open>
  The loop of \<^verbatim>\<open>ParseUint(s, 10, 64)\<close>: a character that is not a decimal digit is a
  syntax error; an overflow returns the maximum at once, before the rest is looked at.
\<close>

fun ParseUint_loop :: "nat \<Rightarrow> string \<Rightarrow> nat \<times> num_err option" where
  "ParseUint_loop n [] = (n, None)"
| "ParseUint_loop n (c # cs) =
     (if \<not> isDigit c then (0, Some ErrSyntax)
      else if n \<ge> maxUint64 div 10 + 1 then (maxUint64, Some ErrRange)
      else let n1 = n * 10 + digit_val c in
        if n1 > maxUint64 then (maxUint64, Some ErrRange)
        else ParseUint_loop n1 cs)"

definition ParseUint :: "string \<Rightarrow> nat \<times> num_err option" where
  "ParseUint s = (if s = [] then (0, Some ErrSyntax) else ParseUint_loop 0 s)"

text \<open>
  \<^verbatim>\<open>ParseInt(s, 10, 64)\<close>; \<open>fn\<close> is the function name recorded in the error. On a range
  error the result is the 64-bit bound of the sign, not zero.
\<close>

definition ParseInt_as :: "string \<Rightarrow> string \<Rightarrow> 64 word \<times> error option" where
  "ParseInt_as fn s0 =
     (if s0 = [] then (0, Some (NumError fn s0 ErrSyntax))
      else
        let neg = (hd s0 = CHR ''-'');
            s = (if hd s0 = CHR ''+'' \<or> hd s0 = CHR ''-'' then tl s0 else s0);
            (un, err) = ParseUint s;
            cutoff = (2::nat) ^ 63
        in if err = Some ErrSyntax then (0, Some (NumError fn s0 ErrSyntax))
           else if \<not> neg \<and> un \<ge> cutoff then (word_of_nat (cutoff - 1), Some (NumError fn s0 ErrRange))
           else if neg \<and> un > cutoff then (- word_of_nat cutoff, Some (NumError fn s0 ErrRange))
           else (if neg then - word_of_nat un else word_of_nat un, None))"

definition ParseInt :: "string \<Rightarrow> 64 word \<times> error option" where
  "ParseInt s = ParseInt_as ''ParseInt'' s"

text \<open>The fast path of \<^verbatim>\<open>Atoi\<close> for strings of 1 to 18 characters.\<close>

fun Atoi_loop :: "nat \<Rightarrow> string \<Rightarrow> nat option" where
  "Atoi_loop n [] = Some n"
| "Atoi_loop n (ch # cs) =
     (if \<not> isDigit ch then None else Atoi_loop (n * 10 + digit_val ch) cs)"

definition Atoi :: "string \<Rightarrow> 64 word \<times> error option" where
  "Atoi s0 =
     (if 0 < length s0 \<and> length s0 < 19 then
        let s = (if hd s0 = CHR ''-'' \<or> hd s0 = CHR ''+'' then tl s0 else s0)
        in if length s < 1 then (0, Some (NumError ''Atoi'' s0 ErrSyntax))
           else (case Atoi_loop 0 s of
                   None \<Rightarrow> (0, Some (NumError ''Atoi'' s0 ErrSyntax))
                 | Some n \<Rightarrow> (if hd s0 = CHR ''-'' then - word_of_nat n else word_of_nat n, None))
      else ParseInt_as ''Atoi'' s0)"

subsection \<open>\<^verbatim>\<open>float64\<close> values and \<^verbatim>\<open>fmt.Sprintf("%f", v)\<close>\<close>

text \<open>
  A \<^verbatim>\<open>float64\<close> is its IEEE 754 bit pattern: sign bit, 11 exponent bits, 52 fraction bits.
\<close>

type_synonym float64 = "64 word"

definition f64_sign :: "float64 \<Rightarrow> bool" where
  "f64_sign f = (unat f div 2 ^ 63 = 1)"

definition f64_exp :: "float64 \<Rightarrow> nat" where
  "f64_exp f = (unat f div 2 ^ 52) mod 2 ^ 11"

definition f64_frac :: "float64 \<Rightarrow> nat" where
  "f64_frac f = unat f mod 2 ^ 52"

definition isNaN :: "float64 \<Rightarrow> bool" where
  "isNaN f = (f64_exp f = 2047 \<and> f64_frac f \<noteq> 0)"

definition isInf :: "float64 \<Rightarrow> bool" where
  "isInf f = (f64_exp f = 2047 \<and> f64_frac f = 0)"

text \<open>
  A finite float is \<open>m * 2 ^ u\<close> for the integer significand \<open>m\<close> and the exponent \<open>u\<close> of
  its last bit, given here as the fraction \<open>f64_num / f64_den\<close>.
\<close>

definition f64_mant :: "float64 \<Rightarrow> nat" where
  "f64_mant f = (if f64_exp f = 0 then f64_frac f else f64_frac f + 2 ^ 52)"

definition f64_num :: "float64 \<Rightarrow> nat" where
  "f64_num f = (let E = max (f64_exp f) 1 in if E \<ge> 1075 then f64_mant f * 2 ^ (E - 1075) else f64_mant f)"

definition f64_den :: "float64 \<Rightarrow> nat" where
  "f64_den f = (let E = max (f64_exp f) 1 in if E \<ge> 1075 then 1 else 2 ^ (1075 - E))"

text \<open>The integer nearest to \<open>a / b\<close>, a tie going to the even one.\<close>

definition round_half_even :: "nat \<Rightarrow> nat \<Rightarrow> nat" where
  "round_half_even a b =
     (let q = a div b; r = a mod b
      in if 2 * r < b then q
         else if 2 * r > b then q + 1
         else if even q then q else q + 1)"

definition pad6 :: "nat \<Rightarrow> string" where
  "pad6 n = (let s = utoa n in replicate (6 - length s) CHR ''0'' @ s)"

text \<open>
  \<^verbatim>\<open>%f\<close> prints with six digits after the point, rounding the exact decimal expansion of
  the float to nearest, ties to even; an infinity prints with its sign, a NaN without.
\<close>

definition Sprintf_f :: "float64 \<Rightarrow> string" where
  "Sprintf_f f =
     (if isNaN f then ''NaN''
      else if isInf f then (if f64_sign f then ''-Inf'' else ''+Inf'')
      else
        let N = round_half_even (f64_num f * 10 ^ 6) (f64_den f)
        in (if f64_sign f then ''-'' else []) @ utoa (N div 10 ^ 6) @ ''.'' @ pad6 (N mod 10 ^ 6))"

subsection \<open>Rounding a fraction to a float\<close>

text \<open>\<^verbatim>\<open>floatInfo\<close>: the number of fraction bits, of exponent bits, and the bias.\<close>

record floatInfo =
  mantbits :: nat
  expbits :: nat
  bias :: int

definition float32info :: floatInfo where
  "float32info = \<lparr>mantbits = 23, expbits = 8, bias = -127\<rparr>"

definition float64info :: floatInfo where
  "float64info = \<lparr>mantbits = 52, expbits = 11, bias = -1023\<rparr>"

fun bit_len :: "nat \<Rightarrow> nat" where
  "bit_len n = (if n = 0 then 0 else Suc (bit_len (n div 2)))"

declare bit_len.simps [simp del]

definition scale2 :: "nat \<Rightarrow> int \<Rightarrow> nat" where
  "scale2 n k = (if k \<ge> 0 then n * 2 ^ nat k else n)"

text \<open>\<open>floor_log2 a b\<close> is the \<open>e\<close> with \<open>2 ^ e \<le> a / b < 2 ^ (e + 1)\<close>, for positive \<open>a\<close> and \<open>b\<close>.\<close>

definition floor_log2 :: "nat \<Rightarrow> nat \<Rightarrow> int" where
  "floor_log2 a b =
     (let e = int (bit_len a) - int (bit_len b)
      in if scale2 a (- e) \<ge> scale2 b e then e else e - 1)"

text \<open>
  The float of the format nearest to \<open>a / b > 0\<close> (IEEE 754 unbiased rounding), as its
  magnitude bits (exponent and fraction fields) and whether it overflowed. With \<open>u\<close> the
  exponent of the last bit and \<open>m\<close> the rounded significand, the bits are
  \<open>(u - umin) * 2 ^ mantbits + m\<close>: the hidden bit of \<open>m\<close> carries into the exponent field.
\<close>

definition round_float :: "floatInfo \<Rightarrow> nat \<Rightarrow> nat \<Rightarrow> nat \<times> bool" where
  "round_float flt a b =
     (let umin = bias flt + 1 - int (mantbits flt);
          u = max (floor_log2 a b - int (mantbits flt)) umin;
          m = round_half_even (scale2 a (- u)) (scale2 b u);
          bits = nat (u - umin) * 2 ^ mantbits flt + m;
          inf = (2 ^ expbits flt - 1) * 2 ^ mantbits flt
      in if bits \<ge> inf then (inf, True) else (bits, False))"

definition f64_of_bits :: "bool \<Rightarrow> nat \<Rightarrow> float64" where
  "f64_of_bits neg bits = word_of_nat ((if neg then 2 ^ 63 else 0) + bits)"

definition f64_Inf :: "bool \<Rightarrow> float64" where
  "f64_Inf neg = f64_of_bits neg (2047 * 2 ^ 52)"

text \<open>
  The \<^verbatim>\<open>float64\<close> with the given sign and the magnitude \<open>a / b\<close> rounded to the format,
  and whether that overflowed. For \<^verbatim>\<open>float32info\<close> the value is rounded to 32 bits and
  then widened, which is exact.
\<close>

definition to_float :: "floatInfo \<Rightarrow> bool \<Rightarrow> nat \<Rightarrow> nat \<Rightarrow> float64 \<times> bool" where
  "to_float flt neg a b =
     (if a = 0 then (f64_of_bits neg 0, False)
      else
        let (bits, ovf) = round_float flt a b
        in if ovf then (f64_Inf neg, True)
           else if mantbits flt = 52 then (f64_of_bits neg bits, False)
           else
             let frac = bits mod 2 ^ mantbits flt;
                 E = bits div 2 ^ mantbits flt;
                 m = (if E = 0 then frac else frac + 2 ^ mantbits flt);
                 u = int (max E 1) + bias flt - int (mantbits flt)
             in if m = 0 then (f64_of_bits neg 0, False)
                else (f64_of_bits neg (fst (round_float float64info (scale2 m u) (scale2 1 (- u)))), False))"

subsection \<open>\<^verbatim>\<open>strconv.ParseFloat\<close>\<close>

text \<open>\<^verbatim>\<open>lower(c)\<close> is \<^verbatim>\<open>c | ('x' - 'X')\<close>: it sets bit 5.\<close>

definition lower :: "char \<Rightarrow> char" where
  "lower c = (if (of_char c div (32::nat)) mod 2 = 1 then c else char_of (of_char c + (32::nat)))"

definition isHexLetter :: "char \<Rightarrow> bool" where
  "isHexLetter c = ((97::nat) \<le> of_char (lower c) \<and> of_char (lower c) \<le> (102::nat))"

fun commonPrefixLenIgnoreCase :: "string \<Rightarrow> string \<Rightarrow> nat" where
  "commonPrefixLenIgnoreCase (c # s) (p # ps) =
     (let c' = (if (65::nat) \<le> of_char c \<and> of_char c \<le> (90::nat) then char_of (of_char c + (32::nat)) else c)
      in if c' \<noteq> p then 0 else Suc (commonPrefixLenIgnoreCase s ps))"
| "commonPrefixLenIgnoreCase _ _ = 0"

definition f64_NaN :: float64 where
  "f64_NaN = 0x7FF8000000000001"

text \<open>
  \<^verbatim>\<open>special\<close>: the signed strings \<^verbatim>\<open>inf\<close> and \<^verbatim>\<open>infinity\<close> and the unsigned \<^verbatim>\<open>nan\<close>, in any
  case, with the number of characters read.
\<close>

definition special :: "string \<Rightarrow> (float64 \<times> nat) option" where
  "special s =
     (if s = [] then None
      else
        let c = hd s in
        if c = CHR ''+'' \<or> c = CHR ''-'' \<or> c = CHR ''i'' \<or> c = CHR ''I'' then
          let nsign = (if c = CHR ''+'' \<or> c = CHR ''-'' then 1 else 0);
              n0 = commonPrefixLenIgnoreCase (drop nsign s) ''infinity'';
              n = (if 3 < n0 \<and> n0 < 8 then 3 else n0)
          in if n = 3 \<or> n = 8 then Some (f64_Inf (c = CHR ''-''), nsign + n) else None
        else if c = CHR ''n'' \<or> c = CHR ''N'' then
          (if commonPrefixLenIgnoreCase s ''nan'' = 3 then Some (f64_NaN, 3) else None)
        else None)"

text \<open>
  The digit loop of \<^verbatim>\<open>readFloat\<close>. Go keeps the first 19 digits in a \<^verbatim>\<open>uint64\<close> for its
  fast paths and reads the digits again for the exact conversion; the model keeps all of
  them in \<open>mantissa\<close>.
\<close>

record mstate =
  sawdot :: bool
  sawdigits :: bool
  nd :: nat
  dp :: int
  mantissa :: nat
  underscores :: bool

fun readFloat_digits :: "nat \<Rightarrow> mstate \<Rightarrow> string \<Rightarrow> mstate \<times> string" where
  "readFloat_digits base st [] = (st, [])"
| "readFloat_digits base st (c # cs) =
     (if c = CHR ''_'' then readFloat_digits base (st\<lparr>underscores := True\<rparr>) cs
      else if c = CHR ''.'' then
        (if sawdot st then (st, c # cs)
         else readFloat_digits base (st\<lparr>sawdot := True, dp := int (nd st)\<rparr>) cs)
      else if isDigit c then
        (if c = CHR ''0'' \<and> nd st = 0
         then readFloat_digits base (st\<lparr>sawdigits := True, dp := dp st - 1\<rparr>) cs
         else readFloat_digits base
                (st\<lparr>sawdigits := True, nd := nd st + 1, mantissa := mantissa st * base + digit_val c\<rparr>) cs)
      else if base = 16 \<and> isHexLetter c then
        readFloat_digits base
          (st\<lparr>sawdigits := True, nd := nd st + 1,
              mantissa := mantissa st * 16 + (of_char (lower c) - 97 + 10)\<rparr>) cs
      else (st, c # cs))"

text \<open>The exponent digits: the exponent stops growing at 10000.\<close>

fun readFloat_exp :: "nat \<Rightarrow> bool \<Rightarrow> string \<Rightarrow> nat \<times> bool \<times> string" where
  "readFloat_exp e us [] = (e, us, [])"
| "readFloat_exp e us (c # cs) =
     (if c = CHR ''_'' then readFloat_exp e True cs
      else if isDigit c then readFloat_exp (if e < 10000 then e * 10 + digit_val c else e) us cs
      else (e, us, c # cs))"

fun underscoreOK_loop :: "bool \<Rightarrow> char \<Rightarrow> string \<Rightarrow> bool" where
  "underscoreOK_loop hex saw [] = (saw \<noteq> CHR ''_'')"
| "underscoreOK_loop hex saw (c # cs) =
     (if isDigit c \<or> (hex \<and> isHexLetter c) then underscoreOK_loop hex CHR ''0'' cs
      else if c = CHR ''_'' then (if saw \<noteq> CHR ''0'' then False else underscoreOK_loop hex CHR ''_'' cs)
      else if saw = CHR ''_'' then False
      else underscoreOK_loop hex CHR ''!'' cs)"

definition underscoreOK :: "string \<Rightarrow> bool" where
  "underscoreOK s0 =
     (let s = (if s0 \<noteq> [] \<and> (hd s0 = CHR ''-'' \<or> hd s0 = CHR ''+'') then tl s0 else s0);
          pre = (length s \<ge> 2 \<and> hd s = CHR ''0'' \<and>
                 (lower (s ! 1) = CHR ''b'' \<or> lower (s ! 1) = CHR ''o'' \<or> lower (s ! 1) = CHR ''x''));
          hex = (pre \<and> lower (s ! 1) = CHR ''x'')
      in underscoreOK_loop hex (if pre then CHR ''0'' else CHR ''^'') (if pre then drop 2 s else s))"

text \<open>
  \<^verbatim>\<open>readFloat\<close>: sign, digits with an optional point, optional exponent. The result is
  the sign, whether the number is hexadecimal, the digits read as one integer, the
  exponent to apply to it (of 10, or of 2 for a hexadecimal number) and the number of
  characters read; \<open>None\<close> when the text is no number.
\<close>

definition readFloat :: "string \<Rightarrow> (bool \<times> bool \<times> nat \<times> int \<times> nat) option" where
  "readFloat s =
     (if s = [] then None
      else
        let neg = (hd s = CHR ''-'');
            s1 = (if hd s = CHR ''+'' \<or> hd s = CHR ''-'' then tl s else s);
            hex = (2 < length s1 \<and> hd s1 = CHR ''0'' \<and> lower (s1 ! 1) = CHR ''x'');
            (st, s3) = readFloat_digits (if hex then 16 else 10)
                         \<lparr>sawdot = False, sawdigits = False, nd = 0, dp = 0, mantissa = 0,
                          underscores = False\<rparr>
                         (if hex then drop 2 s1 else s1);
            dp1 = (if sawdot st then dp st else int (nd st)) * (if hex then 4 else 1);
            ndMant = int (nd st) * (if hex then 4 else 1);
            expChar = (if hex then CHR ''p'' else CHR ''e'')
        in if \<not> sawdigits st then None
           else if s3 \<noteq> [] \<and> lower (hd s3) = expChar then
             (let s4 = tl s3 in
              if s4 = [] then None
              else
                let esign = (if hd s4 = CHR ''-'' then - 1 else 1);
                    s5 = (if hd s4 = CHR ''+'' \<or> hd s4 = CHR ''-'' then tl s4 else s4)
                in if s5 = [] \<or> \<not> isDigit (hd s5) then None
                   else
                     let (e, us, s6) = readFloat_exp 0 (underscores st) s5;
                         i = length s - length s6
                     in if us \<and> \<not> underscoreOK (take i s) then None
                        else Some (neg, hex, mantissa st, dp1 + int e * esign - ndMant, i))
           else if hex then None
           else
             let i = length s - length s3
             in if underscores st \<and> \<not> underscoreOK (take i s) then None
                else Some (neg, hex, mantissa st, dp1 - ndMant, i))"

text \<open>
  \<^verbatim>\<open>atof32\<close> and \<^verbatim>\<open>atof64\<close>: the value, the number of characters read, and the error.
  All of Go's conversion paths give the float nearest to the number read.
\<close>

definition atof :: "floatInfo \<Rightarrow> string \<Rightarrow> float64 \<times> nat \<times> num_err option" where
  "atof flt s =
     (case special s of
        Some (val, n) \<Rightarrow> (if mantbits flt = 23 \<and> isNaN val then 0x7FF8000000000000 else val, n, None)
      | None \<Rightarrow>
         (case readFloat s of
            None \<Rightarrow> (0, 0, Some ErrSyntax)
          | Some (neg, hex, mant, exp, n) \<Rightarrow>
              let base = (if hex then 2 else 10);
                  (f, ovf) = (if exp \<ge> 0 then to_float flt neg (mant * base ^ nat exp) 1
                              else to_float flt neg mant (base ^ nat (- exp)))
              in (f, n, if ovf then Some ErrRange else None)))"

definition ParseFloat :: "string \<Rightarrow> nat \<Rightarrow> float64 \<times> error option" where
  "ParseFloat s bitSize =
     (let (f, n, err) = (if bitSize = 32 then atof float32info s else atof float64info s)
      in if n \<noteq> length s \<and> err \<noteq> Some ErrSyntax then (0, Some (NumError ''ParseFloat'' s ErrSyntax))
         else (f, map_option (NumError ''ParseFloat'' s) err))"

subsection \<open>\<^verbatim>\<open>time.Time\<close>, and \<^verbatim>\<open>Format\<close> and \<^verbatim>\<open>Parse\<close> with the layout \<^verbatim>\<open>timeFmt\<close>\<close>

text \<open>
  A \<^verbatim>\<open>time.Time\<close> is an instant with a location. It is given here by the date and clock
  it shows in its location, as \<^verbatim>\<open>time.Date\<close> builds it, and by the offset of the location
  at that instant, in seconds east of UTC.
\<close>

record Time =
  t_year :: int
  t_month :: nat
  t_day :: nat
  t_hour :: nat
  t_min :: nat
  t_sec :: nat
  t_nsec :: nat
  t_offset :: int

text \<open>The zero \<^verbatim>\<open>Time{}\<close> is January 1 of year 1, 00:00:00 UTC.\<close>

definition zero_Time :: Time where
  "zero_Time = \<lparr>t_year = 1, t_month = 1, t_day = 1, t_hour = 0, t_min = 0, t_sec = 0,
                 t_nsec = 0, t_offset = 0\<rparr>"

definition isLeap :: "int \<Rightarrow> bool" where
  "isLeap year = (year mod 4 = 0 \<and> (year mod 100 \<noteq> 0 \<or> year mod 400 = 0))"

definition daysIn :: "nat \<Rightarrow> int \<Rightarrow> nat" where
  "daysIn m year =
     (if m = 2 \<and> isLeap year then 29
      else [31, 28, 31, 30, 31, 30, 31, 31, 30, 31, 30, 31] ! (m - 1))"

definition valid_Time :: "Time \<Rightarrow> bool" where
  "valid_Time t =
     (1 \<le> t_month t \<and> t_month t \<le> 12 \<and> 1 \<le> t_day t \<and> t_day t \<le> daysIn (t_month t) (t_year t) \<and>
      t_hour t < 24 \<and> t_min t < 60 \<and> t_sec t < 60 \<and> t_nsec t < 10 ^ 9)"

definition timeFmt :: string where
  "timeFmt = ''2006-01-02T15:04:05Z''"

text \<open>\<^verbatim>\<open>appendInt\<close>: the decimal form of \<open>x\<close>, padded with zeros to the width, after its sign.\<close>

definition appendInt :: "int \<Rightarrow> nat \<Rightarrow> string" where
  "appendInt x width =
     (let s = utoa (nat \<bar>x\<bar>)
      in (if x < 0 then ''-'' else []) @ replicate (width - length s) CHR ''0'' @ s)"

text \<open>
  \<^verbatim>\<open>t.Format(timeFmt)\<close>. The layout has no zone element: its final \<^verbatim>\<open>Z\<close> is literal
  text, and the fields printed are the date and clock the time shows in its own location.
\<close>

definition Format_timeFmt :: "Time \<Rightarrow> string" where
  "Format_timeFmt t =
     appendInt (t_year t) 4 @ ''-'' @ appendInt (int (t_month t)) 2 @ ''-'' @
     appendInt (int (t_day t)) 2 @ ''T'' @ appendInt (int (t_hour t)) 2 @ '':'' @
     appendInt (int (t_min t)) 2 @ '':'' @ appendInt (int (t_sec t)) 2 @ ''Z''"

definition isDigitAt :: "string \<Rightarrow> nat \<Rightarrow> bool" where
  "isDigitAt s i = (i < length s \<and> isDigit (s ! i))"

definition getnum :: "string \<Rightarrow> bool \<Rightarrow> (nat \<times> string) option" where
  "getnum s fixed =
     (if \<not> isDigitAt s 0 then None
      else if \<not> isDigitAt s 1 then (if fixed then None else Some (digit_val (s ! 0), drop 1 s))
      else Some (digit_val (s ! 0) * 10 + digit_val (s ! 1), drop 2 s))"

text \<open>\<^verbatim>\<open>skip\<close> for a one-character literal of the layout (the layout has no spaces).\<close>

definition skip :: "string \<Rightarrow> char \<Rightarrow> string option" where
  "skip v c = (if v = [] \<or> hd v \<noteq> c then None else Some (tl v))"

fun leadingInt :: "nat \<Rightarrow> string \<Rightarrow> nat" where
  "leadingInt n [] = n"
| "leadingInt n (c # cs) = leadingInt (n * 10 + digit_val c) cs"

definition stdLongYear :: "string \<Rightarrow> (nat \<times> string) option" where
  "stdLongYear v =
     (if length v < 4 \<or> \<not> isDigitAt v 0 then None
      else if \<not> list_all isDigit (take 4 v) then None
      else Some (leadingInt 0 (take 4 v), drop 4 v))"

text \<open>
  After the seconds the input may carry a fraction the layout does not have: a point or
  a comma and digits, of which nine count.
\<close>

definition fractional :: "string \<Rightarrow> nat \<times> string" where
  "fractional v =
     (if length v \<ge> 2 \<and> (hd v = CHR ''.'' \<or> hd v = CHR '','') \<and> isDigitAt v 1 then
        let n = 1 + length (takeWhile isDigit (tl v));
            nbytes = min n 10
        in (leadingInt 0 (take (nbytes - 1) (tl v)) * 10 ^ (10 - nbytes), drop n v)
      else (0, v))"

definition parse_timeFmt :: "string \<Rightarrow> Time option" where
  "parse_timeFmt v0 =
     Option.bind (stdLongYear v0) (\<lambda>(year, v1).
     Option.bind (skip v1 CHR ''-'') (\<lambda>v2.
     Option.bind (getnum v2 True) (\<lambda>(month, v3).
     if month = 0 \<or> 12 < month then None else
     Option.bind (skip v3 CHR ''-'') (\<lambda>v4.
     Option.bind (getnum v4 True) (\<lambda>(day, v5).
     Option.bind (skip v5 CHR ''T'') (\<lambda>v6.
     Option.bind (getnum v6 False) (\<lambda>(hour, v7).
     if 24 \<le> hour then None else
     Option.bind (skip v7 CHR '':'') (\<lambda>v8.
     Option.bind (getnum v8 True) (\<lambda>(mi, v9).
     if 60 \<le> mi then None else
     Option.bind (skip v9 CHR '':'') (\<lambda>v10.
     Option.bind (getnum v10 True) (\<lambda>(sec, v11).
     if 60 \<le> sec then None else
     (let (nsec, v12) = fractional v11 in
     Option.bind (skip v12 CHR ''Z'') (\<lambda>v13.
     if v13 \<noteq> [] then None
     else if day < 1 \<or> day > daysIn month (int year) then None
     else Some \<lparr>t_year = int year, t_month = month, t_day = day, t_hour = hour, t_min = mi,
                 t_sec = sec, t_nsec = nsec, t_offset = 0\<rparr>)))))))))))))"

text \<open>\<^verbatim>\<open>time.Parse(timeFmt, value)\<close>: on an error the time returned is the zero time.\<close>

definition Parse_timeFmt :: "string \<Rightarrow> Time \<times> error option" where
  "Parse_timeFmt v =
     (case parse_timeFmt v of None \<Rightarrow> (zero_Time, Some (ParseError v)) | Some t \<Rightarrow> (t, None))"

subsection \<open>\<^verbatim>\<open>encoding/json\<close>, at the level of JSON documents\<close>

text \<open>
  The bytes on the wire are modelled by the JSON document they denote; white space and
  escapes belong to the lexical layer of \<^verbatim>\<open>encoding/json\<close>. An object keeps its members in
  order, with duplicates.
\<close>

datatype json =
    JNull
  | JBool bool
  | JNumber string
  | JString string
  | JArray "json list"
  | JObject "(string \<times> json) list"

record cfval =
  Text :: string
  Number :: string
  Date :: string
  Checked :: string

definition zero_cfval :: cfval where
  "zero_cfval = \<lparr>Text = [], Number = [], Date = [], Checked = []\<rparr>"

text \<open>
  Writing a Go string as a JSON string replaces every byte that is not part of a valid
  UTF-8 sequence by U+FFFD. \<open>rune_width\<close> is the width of the first rune, 0 when the first
  byte starts no valid sequence (\<^verbatim>\<open>utf8.DecodeRuneInString\<close> returning
  \<^verbatim>\<open>(RuneError, 1)\<close>).
\<close>

definition in_range :: "string \<Rightarrow> nat \<Rightarrow> nat \<Rightarrow> nat \<Rightarrow> bool" where
  "in_range s i lo hi = (i < length s \<and> lo \<le> of_char (s ! i) \<and> of_char (s ! i) \<le> hi)"

definition rune_width :: "string \<Rightarrow> nat" where
  "rune_width s =
     (let b = (of_char (hd s) :: nat) in
      if s = [] then 0
      else if b < 0x80 then 1
      else if 0xC2 \<le> b \<and> b \<le> 0xDF then (if in_range s 1 0x80 0xBF then 2 else 0)
      else if 0xE0 \<le> b \<and> b \<le> 0xEF then
        (if in_range s 1 (if b = 0xE0 then 0xA0 else 0x80) (if b = 0xED then 0x9F else 0xBF) \<and>
            in_range s 2 0x80 0xBF then 3 else 0)
      else if 0xF0 \<le> b \<and> b \<le> 0xF4 then
        (if in_range s 1 (if b = 0xF0 then 0x90 else 0x80) (if b = 0xF4 then 0x8F else 0xBF) \<and>
            in_range s 2 0x80 0xBF \<and> in_range s 3 0x80 0xBF then 4 else 0)
      else 0)"

function json_coerce :: "string \<Rightarrow> string" where
  "json_coerce s =
     (if s = [] then []
      else if rune_width s = 0 then [char_of (0xEF::nat), char_of (0xBF::nat), char_of (0xBD::nat)] @ json_coerce (tl s)
      else take (rune_width s) s @ json_coerce (drop (rune_width s) s))"
  by pat_completeness auto
termination
  by (relation "measure length") auto

declare json_coerce.simps [simp del]

text \<open>
  \<^verbatim>\<open>json.Marshal\<close> of a string, and of a \<^verbatim>\<open>cfval\<close>: every field is tagged
  \<^verbatim>\<open>omitempty\<close>, so only the non-empty ones appear, in the order of the struct.
\<close>

definition Marshal_string :: "string \<Rightarrow> json" where
  "Marshal_string s = JString (json_coerce s)"

definition Marshal_cfval :: "cfval \<Rightarrow> json" where
  "Marshal_cfval c =
     JObject (map (\<lambda>(k, s). (k, JString (json_coerce s)))
                (filter (\<lambda>(k, s). s \<noteq> [])
                   [(''text'', Text c), (''number'', Number c), (''date'', Date c),
                    (''checked'', Checked c)]))"

text \<open>
  \<^verbatim>\<open>json.Unmarshal\<close> into a \<^verbatim>\<open>cfval\<close>. A key selects a field when it equals the field's
  name, also under Unicode case folding: ASCII letters fold to upper case, the Kelvin sign
  (bytes E2 84 AA) to \<^verbatim>\<open>K\<close> and the long s (bytes C5 BF) to \<^verbatim>\<open>S\<close>.
\<close>

fun foldName :: "string \<Rightarrow> string" where
  "foldName [] = []"
| "foldName (c # cs) =
     (if (97::nat) \<le> of_char c \<and> of_char c \<le> (122::nat) then char_of (of_char c - (32::nat)) # foldName cs
      else if of_char c = (0xE2::nat) \<and> length cs \<ge> 2 \<and> of_char (cs ! 0) = (0x84::nat) \<and>
              of_char (cs ! 1) = (0xAA::nat) then CHR ''K'' # foldName (drop 2 cs)
      else if of_char c = (0xC5::nat) \<and> length cs \<ge> 1 \<and> of_char (cs ! 0) = (0xBF::nat)
        then CHR ''S'' # foldName (drop 1 cs)
      else c # foldName cs)"

definition key_is :: "string \<Rightarrow> string \<Rightarrow> bool" where
  "key_is k name = (k = name \<or> foldName k = foldName name)"

definition json_kind :: "json \<Rightarrow> string" where
  "json_kind j = (case j of JNull \<Rightarrow> ''null'' | JBool _ \<Rightarrow> ''bool'' | JNumber _ \<Rightarrow> ''number''
                   | JString _ \<Rightarrow> ''string'' | JArray _ \<Rightarrow> ''array'' | JObject _ \<Rightarrow> ''object'')"

text \<open>
  A member whose key selects a field sets it from a string, leaves it for \<^verbatim>\<open>null\<close>, and
  for any other value records a type error (the first one is kept) and goes on.
\<close>

definition set_field :: "string \<Rightarrow> string \<Rightarrow> cfval \<Rightarrow> cfval" where
  "set_field k s c =
     (if key_is k ''text'' then c\<lparr>Text := s\<rparr>
      else if key_is k ''number'' then c\<lparr>Number := s\<rparr>
      else if key_is k ''date'' then c\<lparr>Date := s\<rparr>
      else if key_is k ''checked'' then c\<lparr>Checked := s\<rparr>
      else c)"

definition is_field :: "string \<Rightarrow> bool" where
  "is_field k = (key_is k ''text'' \<or> key_is k ''number'' \<or> key_is k ''date'' \<or> key_is k ''checked'')"

fun Unmarshal_object :: "(string \<times> json) list \<Rightarrow> cfval \<Rightarrow> error option \<Rightarrow> cfval \<times> error option" where
  "Unmarshal_object [] c err = (c, err)"
| "Unmarshal_object ((k, j) # kvs) c err =
     (case j of
        JString s \<Rightarrow> Unmarshal_object kvs (set_field k s c) err
      | JNull \<Rightarrow> Unmarshal_object kvs c err
      | _ \<Rightarrow> Unmarshal_object kvs c
               (if is_field k \<and> err = None then Some (UnmarshalTypeError (json_kind j)) else err))"

text \<open>
  The bytes are \<open>None\<close> when they are no JSON document. Only an object (or \<^verbatim>\<open>null\<close>) fits
  the struct: any other document, a bare string among them, is a type error.
\<close>

definition Unmarshal_cfval :: "json option \<Rightarrow> cfval \<Rightarrow> cfval \<times> error option" where
  "Unmarshal_cfval b c =
     (case b of
        None \<Rightarrow> (c, Some SyntaxError)
      | Some JNull \<Rightarrow> (c, None)
      | Some (JObject kvs) \<Rightarrow> Unmarshal_object kvs c None
      | Some j \<Rightarrow> (c, Some (UnmarshalTypeError (json_kind j))))"

section \<open>The custom field codec\<close>

subsection \<open>\<^verbatim>\<open>CustomFieldValue\<close>\<close>

text \<open>
  \<^verbatim>\<open>CustomFieldValue\<close> wraps an \<^verbatim>\<open>interface{}\<close>. The dynamic values are those the type
  switch of \<^verbatim>\<open>MarshalJSON\<close> tells apart: \<^verbatim>\<open>nil\<close>, the types with a case of their own, a
  \<^verbatim>\<open>driver.Valuer\<close> (an object, named by a number, whose \<^verbatim>\<open>Value\<close> method is looked up in
  an environment), and any other type, named by its type name.
\<close>

datatype gval =
    VNil
  | VString string
  | VInt "64 word"
  | VInt64 "64 word"
  | VFloat64 float64
  | VBool bool
  | VTime Time
  | VCfval cfval
  | VValuer nat
  | VOther string

record CustomFieldValue =
  val :: gval

definition NewCustomFieldValue :: "gval \<Rightarrow> CustomFieldValue" where
  "NewCustomFieldValue v = \<lparr>val = v\<rparr>"

definition Get :: "CustomFieldValue \<Rightarrow> gval" where
  "Get v = val v"

subsection \<open>\<^verbatim>\<open>MarshalJSON\<close>\<close>

text \<open>
  The type switch with its \<^verbatim>\<open>goto switchVal\<close>: a \<^verbatim>\<open>driver.Valuer\<close> is replaced by the
  value it returns and the switch runs again, with no bound on the number of rounds. The
  result is \<open>None\<close> when the loop does not end, \<open>Some (Inl err)\<close> for \<^verbatim>\<open>(nil, err)\<close> and
  \<open>Some (Inr j)\<close> for the document written.
\<close>

partial_function (option) switchVal :: "(nat \<Rightarrow> gval \<times> error option) \<Rightarrow> gval \<Rightarrow> (error + json) option" where
  "switchVal Value v =
     (case v of
        VValuer i \<Rightarrow>
          (case Value i of
             (v', Some err) \<Rightarrow> Some (Inl err)
           | (v', None) \<Rightarrow> switchVal Value v')
      | VString s \<Rightarrow>
          (if s = [] then Some (Inr (Marshal_string []))
           else Some (Inr (Marshal_cfval (zero_cfval\<lparr>Text := s\<rparr>))))
      | VInt n \<Rightarrow> Some (Inr (Marshal_cfval (zero_cfval\<lparr>Number := Sprintf_d n\<rparr>)))
      | VInt64 n \<Rightarrow> Some (Inr (Marshal_cfval (zero_cfval\<lparr>Number := Sprintf_d n\<rparr>)))
      | VFloat64 f \<Rightarrow> Some (Inr (Marshal_cfval (zero_cfval\<lparr>Number := Sprintf_f f\<rparr>)))
      | VBool b \<Rightarrow>
          (if b then Some (Inr (Marshal_cfval (zero_cfval\<lparr>Checked := ''true''\<rparr>)))
           else Some (Inr (Marshal_cfval (zero_cfval\<lparr>Checked := ''false''\<rparr>))))
      | VTime t \<Rightarrow> Some (Inr (Marshal_cfval (zero_cfval\<lparr>Date := Format_timeFmt t\<rparr>)))
      | VCfval c \<Rightarrow> Some (Inr (Marshal_cfval c))
      | VNil \<Rightarrow> Some (Inl (Errorf ''unsupported type''))
      | VOther ty \<Rightarrow> Some (Inl (Errorf ''unsupported type'')))"

definition MarshalJSON :: "(nat \<Rightarrow> gval \<times> error option) \<Rightarrow> CustomFieldValue \<Rightarrow> (error + json) option" where
  "MarshalJSON Value v = switchVal Value (val v)"

subsection \<open>\<^verbatim>\<open>UnmarshalJSON\<close>\<close>

text \<open>
  \<^verbatim>\<open>UnmarshalJSON\<close> has a pointer receiver and assigns to \<^verbatim>\<open>v.val\<close> as it goes: the model
  takes the holder and returns it with the error. Each \<^verbatim>\<open>v.val, err = ...\<close> stores the
  value the library call returned also when the call failed. The four \<^verbatim>\<open>if\<close> statements
  follow one another; only an error returns early.
\<close>

definition number_step :: "CustomFieldValue \<Rightarrow> string \<Rightarrow> CustomFieldValue \<times> error option" where
  "number_step v s =
     (let (i, err1) = Atoi s; v1 = v\<lparr>val := VInt i\<rparr> in
      if err1 \<noteq> None then
        (let (f, err2) = ParseFloat s 64; v2 = v1\<lparr>val := VFloat64 f\<rparr> in
         if err2 \<noteq> None then
           (let (g, err3) = ParseFloat s 32; v3 = v2\<lparr>val := VFloat64 g\<rparr> in
            if err3 \<noteq> None then
              (let (n, err4) = ParseInt s; v4 = v3\<lparr>val := VInt64 n\<rparr> in
               if err4 \<noteq> None then (v4, Some (Errorf (''cannot convert '' @ s @ '' to number'')))
               else (v4, None))
            else (v3, None))
         else (v2, None))
      else (v1, None))"

definition UnmarshalJSON :: "CustomFieldValue \<Rightarrow> json option \<Rightarrow> CustomFieldValue \<times> error option" where
  "UnmarshalJSON v b =
     (let (cf, err) = Unmarshal_cfval b zero_cfval in
      if err \<noteq> None then (v, err)
      else
        let v1 = (if Text cf \<noteq> [] then v\<lparr>val := VString (Text cf)\<rparr> else v);
            (v2, err2) = (if Date cf \<noteq> []
                          then (let (t, e) = Parse_timeFmt (Date cf) in (v1\<lparr>val := VTime t\<rparr>, e))
                          else (v1, None))
        in if err2 \<noteq> None then (v2, err2)
           else
             let v3 = (if Checked cf \<noteq> [] then v2\<lparr>val := VBool (Checked cf = ''true'')\<rparr> else v2)
             in if Number cf \<noteq> [] then number_step v3 (Number cf) else (v3, None))"

section \<open>Setting a custom field\<close>

record CustomFieldItem =
  ID :: string
  Value :: CustomFieldValue
  IDValue :: string
  IDCustomField :: string
  IDModel :: string
  IDModelType :: string

definition zero_CustomFieldItem :: CustomFieldItem where
  "zero_CustomFieldItem =
     \<lparr>ID = [], Value = \<lparr>val = VNil\<rparr>, IDValue = [], IDCustomField = [], IDModel = [],
      IDModelType = []\<rparr>"

text \<open>
  \<^verbatim>\<open>Client.PutJSON\<close> and \<^verbatim>\<open>flattenArguments\<close> are defined in files of the repository
  that are not at hand. They are parameters here: \<open>PutJSON path args body c\<close> acts on the
  client and the network, of any type \<open>'c\<close>, and returns the state after the request with
  its error; \<open>flattenArguments\<close> merges the optional arguments.
\<close>

definition SetCustomFieldByItem ::
  "(string \<Rightarrow> 'a \<Rightarrow> CustomFieldItem \<Rightarrow> 'c \<Rightarrow> 'c \<times> error option) \<Rightarrow> ('a list \<Rightarrow> 'a) \<Rightarrow>
   'c \<Rightarrow> CustomFieldItem \<Rightarrow> 'a list \<Rightarrow> 'c \<times> error option" where
  "SetCustomFieldByItem PutJSON flattenArguments c cfi extraArgs =
     (if IDModelType cfi \<noteq> [] \<and> IDModelType cfi \<noteq> ''card''
      then (c, Some (Errorf (''unsupported model type: '' @ IDModelType cfi)))
      else
        let path = ''cards/'' @ IDModel cfi @ ''/customField/'' @ IDCustomField cfi @ ''/item'';
            args = flattenArguments extraArgs;
            cfValue = zero_CustomFieldItem\<lparr>Value := Value cfi\<rparr>
        in PutJSON path args cfValue c)"

definition SetCustomField ::
  "(string \<Rightarrow> 'a \<Rightarrow> CustomFieldItem \<Rightarrow> 'c \<Rightarrow> 'c \<times> error option) \<Rightarrow> ('a list \<Rightarrow> 'a) \<Rightarrow>
   'c \<Rightarrow> string \<Rightarrow> string \<Rightarrow> gval \<Rightarrow> 'a list \<Rightarrow> 'c \<times> error option" where
  "SetCustomField PutJSON flattenArguments c cardID customFieldID x extraArgs =
     (let path = ''cards/'' @ cardID @ ''/customField/'' @ customFieldID @ ''/item'';
          args = flattenArguments extraArgs;
          cfValue = zero_CustomFieldItem\<lparr>Value := NewCustomFieldValue x\<rparr>
      in PutJSON path args cfValue c)"

subsection \<open>Sample collaborators\<close>

text \<open>
  A network that records each request and answers without error, arguments as lists of
  pairs, and an environment with a single \<^verbatim>\<open>driver.Valuer\<close>, object 0, that returns itself.
\<close>

definition recording_PutJSON ::
  "string \<Rightarrow> 'a \<Rightarrow> CustomFieldItem \<Rightarrow> (string \<times> 'a \<times> CustomFieldItem) list \<Rightarrow>
   (string \<times> 'a \<times> CustomFieldItem) list \<times> error option" where
  "recording_PutJSON path args body log = (log @ [(path, args, body)], None)"

definition concat_args :: "(string \<times> string) list list \<Rightarrow> (string \<times> string) list" where
  "concat_args xs = concat xs"

definition self_Valuer :: "nat \<Rightarrow> gval \<times> error option" where
  "self_Valuer i = (if i = 0 then (VValuer 0, None) else (VNil, Some (ValuerError ''no such object'')))"

section \<open>Properties of \<^verbatim>\<open>SetCustomFieldByItem\<close>\<close>

text \<open>
  C9. \<^verbatim>\<open>SetCustomFieldByItem\<close> accepts an item whose model type is the empty string: the
  guard rejects only a tag that is neither empty nor \<^verbatim>\<open>card\<close>, so with the empty tag (as
  with \<^verbatim>\<open>card\<close>) the request is issued, and the result is that of \<^verbatim>\<open>PutJSON\<close> on the path
  of the card and field, with a body that carries the value alone.
\<close>

theorem SetCustomFieldByItem_empty_tag_accepted:
  "IDModelType cfi = [] \<or> IDModelType cfi = ''card'' \<Longrightarrow>
   SetCustomFieldByItem PutJSON flattenArguments c cfi extraArgs =
     PutJSON (''cards/'' @ IDModel cfi @ ''/customField/'' @ IDCustomField cfi @ ''/item'')
       (flattenArguments extraArgs) (zero_CustomFieldItem\<lparr>Value := Value cfi\<rparr>) c"
  by (auto simp: SetCustomFieldByItem_def Let_def)

theorem SetCustomFieldByItem_empty_tag_accepted_witness:
  "SetCustomFieldByItem recording_PutJSON concat_args []
     (zero_CustomFieldItem\<lparr>Value := NewCustomFieldValue (VString ''probando''),
        IDModel := ''57f5183c'', IDCustomField := ''57f5183d''\<rparr>) [[(''key'', ''k'')]] =
   ([(''cards/57f5183c/customField/57f5183d/item'', [(''key'', ''k'')],
      zero_CustomFieldItem\<lparr>Value := NewCustomFieldValue (VString ''probando'')\<rparr>)], None)"
  using SetCustomFieldByItem_empty_tag_accepted
          [of "zero_CustomFieldItem\<lparr>Value := NewCustomFieldValue (VString ''probando''),
                 IDModel := ''57f5183c'', IDCustomField := ''57f5183d''\<rparr>"
              recording_PutJSON concat_args "[]" "[[(''key'', ''k'')]]"]
  by (simp add: zero_CustomFieldItem_def recording_PutJSON_def concat_args_def)

text \<open>
  C7, as the code has it. An item whose model type is neither empty nor \<^verbatim>\<open>card\<close> is refused
  with the error \<^verbatim>\<open>unsupported model type: <tag>\<close>, whatever \<^verbatim>\<open>PutJSON\<close> is and with the
  client and network state unchanged: no request is attempted. (The empty tag is not
  refused: see the counterexample.)
\<close>

theorem SetCustomFieldByItem_rejects_other_tags:
  "IDModelType cfi \<noteq> [] \<Longrightarrow> IDModelType cfi \<noteq> ''card'' \<Longrightarrow>
   SetCustomFieldByItem PutJSON flattenArguments c cfi extraArgs =
     (c, Some (Errorf (''unsupported model type: '' @ IDModelType cfi)))"
  by (simp add: SetCustomFieldByItem_def)

theorem SetCustomFieldByItem_rejects_other_tags_witness:
  "SetCustomFieldByItem recording_PutJSON concat_args []
     (zero_CustomFieldItem\<lparr>IDModelType := ''board''\<rparr>) [] =
   ([], Some (Errorf ''unsupported model type: board''))"
  using SetCustomFieldByItem_rejects_other_tags
          [of "zero_CustomFieldItem\<lparr>IDModelType := ''board''\<rparr>" recording_PutJSON concat_args "[]" "[]"]
  by simp

text \<open>
  The claim C7 as stated covers every tag other than \<^verbatim>\<open>card\<close>, the empty one too. With the
  empty tag the request goes out: the recording network holds it afterwards.
\<close>

theorem SetCustomFieldByItem_empty_tag_counterexample:
  "IDModelType (zero_CustomFieldItem\<lparr>IDModel := ''m'', IDCustomField := ''f''\<rparr>) \<noteq> ''card'' \<and>
   SetCustomFieldByItem recording_PutJSON concat_args []
     (zero_CustomFieldItem\<lparr>IDModel := ''m'', IDCustomField := ''f''\<rparr>) [] =
   ([(''cards/m/customField/f/item'', [], zero_CustomFieldItem)], None)"
  by (simp add: SetCustomFieldByItem_def zero_CustomFieldItem_def recording_PutJSON_def
        concat_args_def)

section \<open>Properties of \<^verbatim>\<open>MarshalJSON\<close>\<close>

lemma switchVal_VNil: "switchVal env VNil = Some (Inl (Errorf ''unsupported type''))"
  by (subst switchVal.simps) simp

lemma switchVal_VOther: "switchVal env (VOther ty) = Some (Inl (Errorf ''unsupported type''))"
  by (subst switchVal.simps) simp

text \<open>
  C8. A value whose type has no case in the switch (\<^verbatim>\<open>nil\<close>, or a type other than string,
  \<^verbatim>\<open>int\<close>, \<^verbatim>\<open>int64\<close>, \<^verbatim>\<open>float64\<close>, \<^verbatim>\<open>bool\<close>, \<^verbatim>\<open>time.Time\<close>, \<^verbatim>\<open>cfval\<close> and
  \<^verbatim>\<open>driver.Valuer\<close>) makes \<^verbatim>\<open>MarshalJSON\<close> return the error \<^verbatim>\<open>unsupported type\<close> and no
  bytes.
\<close>

theorem MarshalJSON_unsupported_type:
  "val v = VNil \<or> (\<exists>ty. val v = VOther ty) \<Longrightarrow>
   MarshalJSON env v = Some (Inl (Errorf ''unsupported type''))"
  by (auto simp: MarshalJSON_def switchVal_VNil switchVal_VOther)

theorem MarshalJSON_unsupported_type_witness:
  "MarshalJSON self_Valuer (NewCustomFieldValue (VOther ''struct { A int }'')) =
     Some (Inl (Errorf ''unsupported type''))"
  using MarshalJSON_unsupported_type
          [of "NewCustomFieldValue (VOther ''struct { A int }'')" self_Valuer]
  by (simp add: NewCustomFieldValue_def)

end
